theory Spec2Isabelle
  imports Complex_Main
begin

section \<open>Numbers\<close>

text \<open>
  Python floats are modelled as the real numbers and Python integers as \<open>int\<close>.
  All thresholds of the program (22.5, 0.6, 0.1, ...) are read as the exact decimal
  fractions the source text writes.
\<close>

section \<open>Configuration (utils/config.py)\<close>

definition WINDOW_WIDTH :: int where
  "WINDOW_WIDTH = 1200"

definition WINDOW_HEIGHT :: int where
  "WINDOW_HEIGHT = 600"

definition CIRCLE_RADIUS :: int where
  "CIRCLE_RADIUS = 300"

definition NOTE_SPEED :: real where
  "NOTE_SPEED = 7.5"

definition WEBCAM_WIDTH :: int where
  "WEBCAM_WIDTH = 640"

definition WEBCAM_HEIGHT :: int where
  "WEBCAM_HEIGHT = 480"

section \<open>Library functions of Python's math and numpy\<close>

text \<open>
  \<open>math.atan2\<close>, \<open>math.degrees\<close>, \<open>math.radians\<close>, the float remainder \<open>x % m\<close>
  (for a positive \<open>m\<close> the result has the sign of \<open>m\<close>) and \<open>int(x)\<close>, which truncates
  towards zero, over the reals.
\<close>

definition atan2 :: "real \<Rightarrow> real \<Rightarrow> real" where
  "atan2 y x =
     (if 0 < x then arctan (y / x)
      else if x < 0 then (if 0 \<le> y then arctan (y / x) + pi else arctan (y / x) - pi)
      else if 0 < y then pi / 2
      else if y < 0 then - (pi / 2)
      else 0)"

definition degrees :: "real \<Rightarrow> real" where
  "degrees r = r * 180 / pi"

definition radians :: "real \<Rightarrow> real" where
  "radians d = d * pi / 180"

definition py_mod :: "real \<Rightarrow> real \<Rightarrow> real" where
  "py_mod x m = x - m * of_int \<lfloor>x / m\<rfloor>"

definition py_int :: "real \<Rightarrow> int" where
  "py_int x = (if 0 \<le> x then \<lfloor>x\<rfloor> else \<lceil>x\<rceil>)"

datatype error = cv2_error | ZeroDivisionError

section \<open>Scoring (game/scoring.py, utils/config.py)\<close>

text \<open>The entries of the dictionary \<open>TIMING_WINDOWS\<close> of utils/config.py, in milliseconds.\<close>

definition TIMING_WINDOWS_PERFECT :: real where
  "TIMING_WINDOWS_PERFECT = 50"

definition TIMING_WINDOWS_GREAT :: real where
  "TIMING_WINDOWS_GREAT = 100"

definition TIMING_WINDOWS_GOOD :: real where
  "TIMING_WINDOWS_GOOD = 150"

definition TIMING_WINDOWS_BAD :: real where
  "TIMING_WINDOWS_BAD = 200"

text \<open>The fields of \<open>ScoreManager\<close> that carry game state (the font is rendering only).\<close>

record ScoreManager =
  score :: int
  combo :: int
  max_combo :: int
  perfects :: int
  greats :: int
  goods :: int
  misses :: int

definition ScoreManager_init :: ScoreManager where
  "ScoreManager_init =
     \<lparr>score = 0, combo = 0, max_combo = 0, perfects = 0, greats = 0, goods = 0, misses = 0\<rparr>"

text \<open>
  \<open>ScoreManager.add_hit\<close>: the if/elif chain on the timing, then the update of
  \<open>max_combo\<close> from the combo the chain has just written.
\<close>

definition add_hit :: "real \<Rightarrow> ScoreManager \<Rightarrow> ScoreManager" where
  "add_hit timing s =
     (let s1 =
        (if timing \<le> TIMING_WINDOWS_PERFECT then
           s\<lparr>score := score s + 100, perfects := perfects s + 1, combo := combo s + 1\<rparr>
         else if timing \<le> TIMING_WINDOWS_GREAT then
           s\<lparr>score := score s + 80, greats := greats s + 1, combo := combo s + 1\<rparr>
         else if timing \<le> TIMING_WINDOWS_GOOD then
           s\<lparr>score := score s + 50, goods := goods s + 1, combo := combo s + 1\<rparr>
         else
           s\<lparr>misses := misses s + 1, combo := 0\<rparr>)
      in s1\<lparr>max_combo := max (max_combo s1) (combo s1)\<rparr>)"

definition add_miss :: "ScoreManager \<Rightarrow> ScoreManager" where
  "add_miss s = s\<lparr>misses := misses s + 1, combo := 0\<rparr>"

text \<open>A call of one of the two mutators, and a finite sequence of calls run in order.\<close>

datatype score_call = AddHit real | AddMiss

fun apply_call :: "ScoreManager \<Rightarrow> score_call \<Rightarrow> ScoreManager" where
  "apply_call s (AddHit timing) = add_hit timing s"
| "apply_call s AddMiss = add_miss s"

fun run_calls :: "ScoreManager \<Rightarrow> score_call list \<Rightarrow> ScoreManager" where
  "run_calls s [] = s"
| "run_calls s (c # cs) = run_calls (apply_call s c) cs"

section \<open>Notes (game/notes.py)\<close>

record Note =
  note_type :: string
  angle :: real
  radius :: real
  creation_time :: real
  active :: bool
  hit :: bool

definition Note_init :: "string \<Rightarrow> real \<Rightarrow> real \<Rightarrow> real \<Rightarrow> Note" where
  "Note_init ty a r now =
     \<lparr>note_type = ty, angle = a, radius = r, creation_time = now, active = True, hit = False\<rparr>"

text \<open>\<open>Note.update\<close>: an active note moves inwards by \<open>NOTE_SPEED\<close> and goes inactive below 0.\<close>

definition Note_update :: "Note \<Rightarrow> Note" where
  "Note_update n =
     (if active n then
        (let n1 = n\<lparr>radius := radius n - NOTE_SPEED\<rparr>
         in if radius n1 < 0 then n1\<lparr>active := False\<rparr> else n1)
      else n)"

record NoteManager =
  nm_notes :: "Note list"
  last_spawn_time :: real
  spawn_interval :: int
  note_speed :: int
  note_size :: int

definition NoteManager_init :: "real \<Rightarrow> NoteManager" where
  "NoteManager_init now =
     \<lparr>nm_notes = [], last_spawn_time = now, spawn_interval = 2000, note_speed = 1, note_size = 20\<rparr>"

definition add_note :: "string \<Rightarrow> real \<Rightarrow> real \<Rightarrow> NoteManager \<Rightarrow> NoteManager" where
  "add_note ty a now nm =
     nm\<lparr>nm_notes := nm_notes nm @ [Note_init ty a (of_int CIRCLE_RADIUS * 1.5) now]\<rparr>"

text \<open>
  \<open>NoteManager.update\<close> walks a copy of \<open>self.notes\<close>; every note is updated in place and
  taken out of \<open>self.notes\<close> when its radius is then below 0. The notes of the list are
  distinct objects and \<open>list.remove\<close> finds the note by identity, so the list that is left
  holds, in order, the updated notes that were not removed.
\<close>

fun update_loop :: "Note list \<Rightarrow> Note list" where
  "update_loop [] = []"
| "update_loop (note # rest) =
     (let note1 = Note_update note
      in if radius note1 < 0 then update_loop rest else note1 # update_loop rest)"

definition NoteManager_update :: "NoteManager \<Rightarrow> NoteManager" where
  "NoteManager_update nm = nm\<lparr>nm_notes := update_loop (nm_notes nm)\<rparr>"

text \<open>A gesture as \<open>HandTracker.detect_gesture\<close> returns it: a kind and, for a slide, its angle.\<close>

type_synonym gesture = "string \<times> real option"

text \<open>The angle of a hit position about the centre of the play area, in \<open>[0, 360)\<close>.\<close>

definition hit_angle_of :: "real \<times> real \<Rightarrow> real" where
  "hit_angle_of pos =
     (let dx = fst pos - of_int (WINDOW_WIDTH div 4);
          dy = snd pos - of_int (WINDOW_HEIGHT div 2);
          hit_angle = degrees (atan2 dy dx)
      in if hit_angle < 0 then hit_angle + 360 else hit_angle)"

text \<open>
  The inner loop of \<open>check_hits\<close> over \<open>zip(gestures, positions)\<close> for one note: it stops
  (\<open>break\<close>) at the first pair that hits the note.
\<close>

fun hit_by :: "Note \<Rightarrow> (gesture \<times> (real \<times> real)) list \<Rightarrow> bool" where
  "hit_by note [] = False"
| "hit_by note ((gesture, pos) # rest) =
     (let hit_angle = hit_angle_of pos;
          angle_diff = \<bar>hit_angle - angle note\<bar>;
          angle_diff = (if angle_diff > 180 then 360 - angle_diff else angle_diff)
      in if angle_diff < 60 \<and> of_int CIRCLE_RADIUS * 0.6 < radius note
            \<and> radius note < of_int CIRCLE_RADIUS * 1.4
         then True
         else hit_by note rest)"

text \<open>
  The outer loop over a copy of \<open>self.notes\<close>: a note that is hit goes to \<open>hits\<close> and out of
  \<open>self.notes\<close>; the result is the pair of \<open>hits\<close> and the notes that stay, both in order.
\<close>

fun check_hits_loop ::
  "Note list \<Rightarrow> (gesture \<times> (real \<times> real)) list \<Rightarrow> Note list \<times> Note list" where
  "check_hits_loop [] gps = ([], [])"
| "check_hits_loop (note # rest) gps =
     (let (hits, kept) = check_hits_loop rest gps
      in if hit_by note gps then (note # hits, kept) else (hits, note # kept))"

definition check_hits ::
  "gesture list \<Rightarrow> (real \<times> real) list \<Rightarrow> NoteManager \<Rightarrow> Note list \<times> NoteManager" where
  "check_hits gestures positions nm =
     (let (hits, kept) = check_hits_loop (nm_notes nm) (zip gestures positions)
      in (hits, nm\<lparr>nm_notes := kept\<rparr>))"

section \<open>Sector tables (main.py, game/note_generator.py)\<close>

text \<open>The list \<open>sections\<close> of \<open>get_hit_section\<close>: name, start angle, end angle.\<close>

definition sections :: "(string \<times> real \<times> real) list" where
  "sections =
     [(''TOP'', 337.5, 22.5),
      (''TOP_RIGHT'', 22.5, 67.5),
      (''RIGHT'', 67.5, 112.5),
      (''BOTTOM_RIGHT'', 112.5, 157.5),
      (''BOTTOM'', 157.5, 202.5),
      (''BOTTOM_LEFT'', 202.5, 247.5),
      (''LEFT'', 247.5, 292.5),
      (''TOP_LEFT'', 292.5, 337.5)]"

text \<open>
  The loop of \<open>get_hit_section\<close> over the sections, with its \<open>if\<close>/\<open>elif\<close> as written: the
  first test is \<open>start_angle <= adjusted_angle or adjusted_angle < end_angle\<close>, and only
  under it the test for the name \<open>TOP\<close>; the \<open>elif\<close> is reached when the first test fails.
  \<open>None\<close> means the loop ended without a \<open>return\<close>.
\<close>

fun find_section :: "real \<Rightarrow> (string \<times> real \<times> real) list \<Rightarrow> string option" where
  "find_section adjusted_angle [] = None"
| "find_section adjusted_angle ((section_name, start_angle, end_angle) # rest) =
     (if start_angle \<le> adjusted_angle \<or> adjusted_angle < end_angle then
        (if section_name = ''TOP'' \<and> (adjusted_angle \<ge> 337.5 \<or> adjusted_angle < 22.5)
         then Some section_name
         else find_section adjusted_angle rest)
      else if start_angle \<le> adjusted_angle \<and> adjusted_angle < end_angle then Some section_name
      else find_section adjusted_angle rest)"

definition get_hit_section :: "real \<Rightarrow> string" where
  "get_hit_section a =
     (let adjusted_angle = py_mod (a - 90) 360
      in case find_section adjusted_angle sections of
           Some section_name \<Rightarrow> section_name
         | None \<Rightarrow> ''TOP'')"

text \<open>\<open>MaiMaiTrainer.region_to_angle\<close>: \<open>dict.get\<close> on the table of main.py.\<close>

definition region_to_angle :: "string \<Rightarrow> real option" where
  "region_to_angle region_name =
     map_of
       [(''TOP'', 270), (''TOP_RIGHT'', 315), (''RIGHT'', 0), (''BOTTOM_RIGHT'', 45),
        (''BOTTOM'', 90), (''BOTTOM_LEFT'', 135), (''LEFT'', 180), (''TOP_LEFT'', 225)]
       region_name"

text \<open>\<open>NoteGenerator.region_angles\<close>, the table used to spawn a note for a region.\<close>

definition region_angles :: "(string \<times> real) list" where
  "region_angles =
     [(''TOP'', 90), (''TOP_RIGHT'', 45), (''RIGHT'', 0), (''BOTTOM_RIGHT'', 315),
      (''BOTTOM'', 270), (''BOTTOM_LEFT'', 225), (''LEFT'', 180), (''TOP_LEFT'', 135)]"

section \<open>Coordinate mapper (utils/coordinate_mapper.py)\<close>

type_synonym point = "real \<times> real"

type_synonym matrix = "real list list"

record CoordinateMapper =
  calibration_points :: "(point \<times> point) list"
  transformation_matrix :: "matrix option"

definition CoordinateMapper_init :: CoordinateMapper where
  "CoordinateMapper_init = \<lparr>calibration_points = [], transformation_matrix = None\<rparr>"

definition add_calibration_point :: "point \<Rightarrow> point \<Rightarrow> CoordinateMapper \<Rightarrow> CoordinateMapper" where
  "add_calibration_point webcam_point screen_point cm =
     cm\<lparr>calibration_points := calibration_points cm @ [(webcam_point, screen_point)]\<rparr>"

text \<open>
  \<open>cv2.getPerspectiveTransform\<close> is OpenCV's, not this program's. What the program relies
  on is its contract: it takes exactly four source and four destination points
  (\<open>CV_Assert(src.checkVector(2, CV_32F) == 4 && dst.checkVector(2, CV_32F) == 4)\<close>) and
  raises \<open>cv2.error\<close> on any other number; on four pairs it returns the matrix of its
  linear solve, here the parameter \<open>solve\<close>.
\<close>

definition getPerspectiveTransform ::
  "(point list \<Rightarrow> point list \<Rightarrow> matrix) \<Rightarrow> point list \<Rightarrow> point list \<Rightarrow> error + matrix" where
  "getPerspectiveTransform solve src_points dst_points =
     (if length src_points = 4 \<and> length dst_points = 4 then Inr (solve src_points dst_points)
      else Inl cv2_error)"

text \<open>
  \<open>calculate_transformation\<close>: the returned flag and the mapper after the call, or the
  exception that leaves the call (the assignment of the matrix is then not reached).
\<close>

definition calculate_transformation ::
  "(point list \<Rightarrow> point list \<Rightarrow> matrix) \<Rightarrow> CoordinateMapper \<Rightarrow> error + (bool \<times> CoordinateMapper)" where
  "calculate_transformation solve cm =
     (if length (calibration_points cm) < 4 then Inr (False, cm)
      else
        (let src_points = map fst (calibration_points cm);
             dst_points = map snd (calibration_points cm)
         in case getPerspectiveTransform solve src_points dst_points of
              Inl e \<Rightarrow> Inl e
            | Inr m \<Rightarrow> Inr (True, cm\<lparr>transformation_matrix := Some m\<rparr>)))"

definition is_calibrated :: "CoordinateMapper \<Rightarrow> bool" where
  "is_calibrated cm \<longleftrightarrow> transformation_matrix cm \<noteq> None"

section \<open>Screen detection (vision/video_analyzer.py)\<close>

text \<open>
  What \<open>detect_screen\<close> reads of a contour: \<open>cv2.contourArea\<close>, \<open>cv2.arcLength\<close> and
  \<open>cv2.minEnclosingCircle\<close>. A frame is given by the contours that the OpenCV pipeline
  (grey, blur, Canny, \<open>findContours\<close>) finds in it; \<open>None\<close> is the missing frame.
\<close>

record contour =
  contourArea :: real
  arcLength :: real
  minEnclosingCircle :: "(real \<times> real) \<times> real"

type_synonym frame = "contour list"

record VideoAnalyzer =
  min_radius :: int
  max_radius :: int
  screen_center :: "(int \<times> int) option"
  screen_radius :: "int option"
  manual_buttons :: "(string \<times> point option) list"

definition VideoAnalyzer_init :: VideoAnalyzer where
  "VideoAnalyzer_init =
     \<lparr>min_radius = py_int (of_int (min WEBCAM_WIDTH WEBCAM_HEIGHT) * 0.3),
      max_radius = py_int (of_int (min WEBCAM_WIDTH WEBCAM_HEIGHT) * 0.45),
      screen_center = None,
      screen_radius = None,
      manual_buttons =
        [(''TOP'', None), (''TOP_RIGHT'', None), (''RIGHT'', None), (''BOTTOM_RIGHT'', None),
         (''BOTTOM'', None), (''BOTTOM_LEFT'', None), (''LEFT'', None), (''TOP_LEFT'', None)]\<rparr>"

text \<open>\<open>all(v is not None for v in self.manual_buttons.values())\<close> and the values themselves.\<close>

definition all_mapped :: "VideoAnalyzer \<Rightarrow> bool" where
  "all_mapped va \<longleftrightarrow> list_all (\<lambda>kv. snd kv \<noteq> None) (manual_buttons va)"

definition button_values :: "VideoAnalyzer \<Rightarrow> point list" where
  "button_values va = List.map_filter snd (manual_buttons va)"

definition circularity :: "contour \<Rightarrow> real" where
  "circularity c =
     (if arcLength c > 0 then 4 * pi * contourArea c / (arcLength c * arcLength c) else 0)"

definition circular_enough :: "VideoAnalyzer \<Rightarrow> contour \<Rightarrow> bool" where
  "circular_enough va c \<longleftrightarrow>
     circularity c > 0.7
     \<and> of_int (min_radius va) < sqrt (contourArea c / pi)
     \<and> sqrt (contourArea c / pi) < of_int (max_radius va)"

text \<open>The loop over the sorted contours: the first one that is circular enough, if any.\<close>

fun first_circular :: "VideoAnalyzer \<Rightarrow> contour list \<Rightarrow> contour option" where
  "first_circular va [] = None"
| "first_circular va (c # cs) = (if circular_enough va c then Some c else first_circular va cs)"

text \<open>
  \<open>detect_screen\<close>: the flag and the analyzer after the call. The manual branch divides by
  the number of buttons, which is \<open>ZeroDivisionError\<close> on an empty dictionary.
  \<open>sorted(contours, key=cv2.contourArea, reverse=True)\<close> is a stable sort by falling area.
\<close>

definition detect_screen :: "frame option \<Rightarrow> VideoAnalyzer \<Rightarrow> error + (bool \<times> VideoAnalyzer)" where
  "detect_screen fr va =
     (case fr of
        None \<Rightarrow> Inr (False, va)
      | Some contours \<Rightarrow>
          if all_mapped va then
            (let x_coords = map fst (button_values va);
                 y_coords = map snd (button_values va)
             in if length x_coords = 0 then Inl ZeroDivisionError
                else
                  (let center_x = sum_list x_coords / of_nat (length x_coords);
                       center_y = sum_list y_coords / of_nat (length y_coords);
                       distances =
                         map (\<lambda>p. sqrt ((fst p - center_x)\<^sup>2 + (snd p - center_y)\<^sup>2))
                           (button_values va)
                   in Inr (True,
                        va\<lparr>screen_center := Some (py_int center_x, py_int center_y),
                           screen_radius :=
                             Some (py_int (sum_list distances / of_nat (length distances)))\<rparr>)))
          else
            (case first_circular va (sort_key (\<lambda>c. - contourArea c) contours) of
               Some c \<Rightarrow>
                 (case minEnclosingCircle c of
                    ((x, y), r) \<Rightarrow>
                      Inr (True,
                        va\<lparr>screen_center := Some (py_int x, py_int y),
                           screen_radius := Some (py_int r)\<rparr>))
             | None \<Rightarrow> Inr (False, va)))"

section \<open>Gesture detection (vision/hand_tracker.py)\<close>

record HandTracker =
  prev_positions :: "string \<rightharpoonup> int \<times> int \<times> real"
  slide_threshold :: real
  tap_threshold :: real

definition HandTracker_init :: HandTracker where
  "HandTracker_init = \<lparr>prev_positions = Map.empty, slide_threshold = 30, tap_threshold = 0.1\<rparr>"

text \<open>
  \<open>detect_gesture\<close>: the gesture returned (\<open>None\<close> for no gesture) and the tracker after the
  call. A finger position is \<open>(x, y, z)\<close> with pixel coordinates and a depth.
\<close>

definition detect_gesture ::
  "int \<times> int \<times> real \<Rightarrow> string \<Rightarrow> HandTracker \<Rightarrow> gesture option \<times> HandTracker" where
  "detect_gesture finger_pos finger_id ht =
     (case prev_positions ht finger_id of
        None \<Rightarrow> (None, ht\<lparr>prev_positions := (prev_positions ht)(finger_id \<mapsto> finger_pos)\<rparr>)
      | Some prev_pos \<Rightarrow>
          (let dx = fst finger_pos - fst prev_pos;
               dy = fst (snd finger_pos) - fst (snd prev_pos);
               dz = snd (snd finger_pos) - snd (snd prev_pos);
               ht1 = ht\<lparr>prev_positions := (prev_positions ht)(finger_id \<mapsto> finger_pos)\<rparr>;
               movement = sqrt (of_int (dx * dx + dy * dy))
           in if movement > slide_threshold ht then
                (Some (''SLIDE'', Some (degrees (atan2 (of_int dy) (of_int dx)))), ht1)
              else if \<bar>dz\<bar> > tap_threshold ht then (Some (''TAP'', None), ht1)
              else (None, ht1)))"

section \<open>Hit detection of the trainer (main.py)\<close>

text \<open>
  The fields of \<open>MaiMaiTrainer\<close> that the note engine, the scoring and the hit detection
  use. Times are milliseconds read from the clock; they are arguments of the model.
\<close>

record MaiMaiTrainer =
  note_manager :: NoteManager
  score_manager :: ScoreManager
  video_analyzer :: VideoAnalyzer
  last_hit_time :: real
  hit_cooldown :: real
  min_movement_threshold :: real
  last_finger_positions :: "int \<rightharpoonup> int \<times> int"
  center :: "int \<times> int"
  hit_dots :: "((int \<times> int) \<times> real \<times> (int \<times> int \<times> int)) list"
  last_dot_time :: real
  dot_cooldown :: real
  hit_stats :: "string \<rightharpoonup> int"

definition MaiMaiTrainer_init :: "real \<Rightarrow> MaiMaiTrainer" where
  "MaiMaiTrainer_init now =
     \<lparr>note_manager = NoteManager_init now,
      score_manager = ScoreManager_init,
      video_analyzer = VideoAnalyzer_init,
      last_hit_time = 0,
      hit_cooldown = 50,
      min_movement_threshold = 10,
      last_finger_positions = Map.empty,
      center = (WINDOW_WIDTH div 4, WINDOW_HEIGHT div 2),
      hit_dots = [],
      last_dot_time = 0,
      dot_cooldown = 100,
      hit_stats =
        map_of
          [(''TOP'', 0), (''TOP_RIGHT'', 0), (''RIGHT'', 0), (''BOTTOM_RIGHT'', 0),
           (''BOTTOM'', 0), (''BOTTOM_LEFT'', 0), (''LEFT'', 0), (''TOP_LEFT'', 0)]\<rparr>"

text \<open>\<open>if section in self.hit_stats: self.hit_stats[section] += 1\<close>.\<close>

definition count_hit :: "string \<Rightarrow> (string \<rightharpoonup> int) \<Rightarrow> (string \<rightharpoonup> int)" where
  "count_hit section stats =
     (case stats section of None \<Rightarrow> stats | Some n \<Rightarrow> stats(section \<mapsto> n + 1))"

definition add_hit_dot :: "real \<Rightarrow> real \<Rightarrow> MaiMaiTrainer \<Rightarrow> MaiMaiTrainer" where
  "add_hit_dot a current_time t =
     (if current_time - last_dot_time t < dot_cooldown t then t
      else
        (let angle_rad = radians a;
             x = fst (center t) + py_int (cos angle_rad * of_int CIRCLE_RADIUS);
             y = snd (center t) + py_int (sin angle_rad * of_int CIRCLE_RADIUS);
             section = get_hit_section a
         in t\<lparr>hit_stats := count_hit section (hit_stats t),
              hit_dots := hit_dots t @ [((x, y), current_time, (0, 255, 255))],
              last_dot_time := current_time\<rparr>))"

text \<open>
  \<open>self.note_manager.update()\<close> on the trainer that owns both managers: the method works
  on the note manager alone, it holds no reference to the score manager.
\<close>

definition update_notes_of :: "MaiMaiTrainer \<Rightarrow> MaiMaiTrainer" where
  "update_notes_of t = t\<lparr>note_manager := NoteManager_update (note_manager t)\<rparr>"

text \<open>
  \<open>check_button_hit\<close>: the flag and the trainer after the call. \<open>current_time\<close> is the
  clock at the start of the call and \<open>dot_time\<close> the clock read inside \<open>add_hit_dot\<close>.
  \<open>not screen_center or not screen_radius\<close> holds for \<open>None\<close> and for a radius of 0.
\<close>

definition check_button_hit ::
  "int \<Rightarrow> int \<Rightarrow> int \<Rightarrow> real \<Rightarrow> real \<Rightarrow> MaiMaiTrainer \<Rightarrow> bool \<times> MaiMaiTrainer" where
  "check_button_hit finger_x finger_y finger_id current_time dot_time t =
     (if current_time - last_hit_time t < hit_cooldown t then (False, t)
      else
        (case last_finger_positions t finger_id of
           None \<Rightarrow>
             (False,
              t\<lparr>last_finger_positions := (last_finger_positions t)(finger_id \<mapsto> (finger_x, finger_y))\<rparr>)
         | Some last_pos \<Rightarrow>
             (let dx = finger_x - fst last_pos;
                  dy = finger_y - snd last_pos;
                  movement = sqrt (of_int (dx * dx + dy * dy));
                  t1 = t\<lparr>last_finger_positions :=
                         (last_finger_positions t)(finger_id \<mapsto> (finger_x, finger_y))\<rparr>
              in case (screen_center (video_analyzer t1), screen_radius (video_analyzer t1)) of
                   (Some sc, Some sr) \<Rightarrow>
                     if sr = 0 then (False, t1)
                     else
                       (let center_dx = finger_x - fst sc;
                            center_dy = finger_y - snd sc;
                            distance_from_center =
                              sqrt (of_int (center_dx * center_dx + center_dy * center_dy))
                        in if 0.7 * of_int sr < distance_from_center
                              \<and> distance_from_center < 0.9 * of_int sr
                           then
                             (let a = py_mod (degrees (atan2 (of_int center_dy) (of_int center_dx))) 360
                              in if movement > min_movement_threshold t1 then
                                   (let t2 = add_hit_dot a dot_time t1;
                                        t3 = t2\<lparr>last_hit_time := current_time\<rparr>;
                                        section = get_hit_section a
                                    in (True, t3\<lparr>hit_stats := count_hit section (hit_stats t3)\<rparr>))
                                 else (False, t1))
                           else (False, t1))
                 | _ \<Rightarrow> (False, t1))))"

section \<open>The specification's wording, for comparison with the code\<close>

text \<open>
  The sector classification as the specification words it: rotate by 90 degrees, then
  eight sectors of 45 degrees with boundaries at 22.5, 67.5, ..., the sector \<open>TOP\<close>
  wrapping across 0.
\<close>

definition spec_sector_of :: "real \<Rightarrow> string" where
  "spec_sector_of a =
     (let adjusted = py_mod (a - 90) 360
      in if adjusted \<ge> 337.5 \<or> adjusted < 22.5 then ''TOP''
         else if adjusted < 67.5 then ''TOP_RIGHT''
         else if adjusted < 112.5 then ''RIGHT''
         else if adjusted < 157.5 then ''BOTTOM_RIGHT''
         else if adjusted < 202.5 then ''BOTTOM''
         else if adjusted < 247.5 then ''BOTTOM_LEFT''
         else if adjusted < 292.5 then ''LEFT''
         else ''TOP_LEFT'')"

text \<open>
  The acceptance test of a note against a hit position as the specification words it: the
  shorter arc between the two angles is below 60 degrees, and the radius of the note lies
  strictly between 0.6 and 1.4 times the radius of the play field.
\<close>

definition within_tolerance :: "real \<times> real \<Rightarrow> Note \<Rightarrow> bool" where
  "within_tolerance pos n \<longleftrightarrow>
     min \<bar>hit_angle_of pos - angle n\<bar> (360 - \<bar>hit_angle_of pos - angle n\<bar>) < 60
     \<and> 0.6 * of_int CIRCLE_RADIUS < radius n \<and> radius n < 1.4 * of_int CIRCLE_RADIUS"

section \<open>Properties of the scoring\<close>

lemma run_calls_append: "run_calls s (cs @ ds) = run_calls (run_calls s cs) ds"
  by (induction cs arbitrary: s) simp_all

lemma apply_call_max_combo: "max_combo s \<le> max_combo (apply_call s c)"
  by (cases c) (simp_all add: add_hit_def add_miss_def Let_def)

lemma run_calls_max_combo: "max_combo s \<le> max_combo (run_calls s cs)"
proof (induction cs arbitrary: s)
  case Nil
  show ?case by simp
next
  case (Cons c cs)
  have "max_combo s \<le> max_combo (apply_call s c)"
    by (rule apply_call_max_combo)
  also have "\<dots> \<le> max_combo (run_calls (apply_call s c) cs)"
    by (rule Cons.IH)
  finally show ?case by simp
qed

lemma apply_call_score: "score s \<le> score (apply_call s c)"
  by (cases c) (simp_all add: add_hit_def add_miss_def Let_def)

lemma run_calls_score: "score s \<le> score (run_calls s cs)"
proof (induction cs arbitrary: s)
  case Nil
  show ?case by simp
next
  case (Cons c cs)
  have "score s \<le> score (apply_call s c)"
    by (rule apply_call_score)
  also have "\<dots> \<le> score (run_calls (apply_call s c) cs)"
    by (rule Cons.IH)
  finally show ?case by simp
qed

text \<open>
  C4. For every timing offset \<open>t\<close>, \<open>add_hit t\<close> adds 100 points and counts a perfect when
  \<open>t \<le> 50\<close>; otherwise adds 80 and counts a great when \<open>t \<le> 100\<close>; otherwise adds 50 and
  counts a good when \<open>t \<le> 150\<close>; otherwise adds nothing, counts a miss and resets the
  combo to 0. The first satisfied tier wins, exactly one counter moves, and the combo
  grows by one on every tier but the miss.
\<close>

theorem add_hit_tiers:
  "score (add_hit t s) =
     score s + (if t \<le> 50 then 100 else if t \<le> 100 then 80 else if t \<le> 150 then 50 else 0)
   \<and> perfects (add_hit t s) = perfects s + (if t \<le> 50 then 1 else 0)
   \<and> greats (add_hit t s) = greats s + (if t \<le> 50 then 0 else if t \<le> 100 then 1 else 0)
   \<and> goods (add_hit t s) =
       goods s + (if t \<le> 50 then 0 else if t \<le> 100 then 0 else if t \<le> 150 then 1 else 0)
   \<and> misses (add_hit t s) = misses s + (if t \<le> 150 then 0 else 1)
   \<and> combo (add_hit t s) = (if t \<le> 150 then combo s + 1 else 0)"
  by (simp add: add_hit_def Let_def TIMING_WINDOWS_PERFECT_def TIMING_WINDOWS_GREAT_def
      TIMING_WINDOWS_GOOD_def)

text \<open>
  C5. Along every finite sequence of \<open>add_hit\<close> and \<open>add_miss\<close> calls from the initial
  state, \<open>max_combo\<close> never decreases (the value after any prefix is at most the value
  after any extension); \<open>add_miss\<close> and an \<open>add_hit\<close> outside all timing windows leave the
  combo at 0; and after every \<open>add_hit\<close>, \<open>max_combo\<close> is the maximum of its previous
  value and the current combo.
\<close>

theorem max_combo_monotone:
  "max_combo (run_calls ScoreManager_init cs)
     \<le> max_combo (run_calls ScoreManager_init (cs @ ds))
   \<and> combo (add_miss s) = 0
   \<and> combo (add_hit t s) =
       (if t \<le> TIMING_WINDOWS_PERFECT \<or> t \<le> TIMING_WINDOWS_GREAT \<or> t \<le> TIMING_WINDOWS_GOOD
        then combo s + 1 else 0)
   \<and> max_combo (add_hit t s) = max (max_combo s) (combo (add_hit t s))"
proof -
  have mono: "max_combo (run_calls ScoreManager_init cs)
      \<le> max_combo (run_calls ScoreManager_init (cs @ ds))"
    unfolding run_calls_append by (rule run_calls_max_combo)
  have miss: "combo (add_miss s) = 0"
    by (simp add: add_miss_def)
  have hit: "combo (add_hit t s) =
      (if t \<le> TIMING_WINDOWS_PERFECT \<or> t \<le> TIMING_WINDOWS_GREAT \<or> t \<le> TIMING_WINDOWS_GOOD
       then combo s + 1 else 0)"
    by (simp add: add_hit_def Let_def)
  have mx: "max_combo (add_hit t s) = max (max_combo s) (combo (add_hit t s))"
    by (simp add: add_hit_def Let_def)
  from mono miss hit mx show ?thesis by blast
qed

text \<open>
  C10. The score is never negative and never decreases along any sequence of calls from
  the initial state: every \<open>add_hit\<close> adds exactly 0, 50, 80 or 100, and \<open>add_miss\<close>
  leaves the score as it is.
\<close>

theorem score_monotone:
  "0 \<le> score (run_calls ScoreManager_init cs)
   \<and> score (run_calls ScoreManager_init cs) \<le> score (run_calls ScoreManager_init (cs @ ds))
   \<and> score (add_hit t s) - score s \<in> {0, 50, 80, 100}
   \<and> score (add_miss s) = score s"
proof -
  have "score ScoreManager_init \<le> score (run_calls ScoreManager_init cs)"
    by (rule run_calls_score)
  then have nonneg: "0 \<le> score (run_calls ScoreManager_init cs)"
    by (simp add: ScoreManager_init_def)
  have mono: "score (run_calls ScoreManager_init cs)
      \<le> score (run_calls ScoreManager_init (cs @ ds))"
    unfolding run_calls_append by (rule run_calls_score)
  have step: "score (add_hit t s) - score s \<in> {0, 50, 80, 100}"
    by (simp add: add_hit_def Let_def)
  have miss: "score (add_miss s) = score s"
    by (simp add: add_miss_def)
  from nonneg mono step miss show ?thesis by blast
qed

section \<open>Properties of the sector tables\<close>

lemma find_section_sections:
  "find_section a sections = Some ''TOP'' \<or> find_section a sections = None"
  unfolding sections_def by simp

lemma get_hit_section_const: "get_hit_section a = ''TOP''"
  using find_section_sections [of "py_mod (a - 90) 360"]
  by (auto simp add: get_hit_section_def Let_def)

lemma spec_sector_of_canonical:
  "map spec_sector_of [90, 135, 180, 225, 270, 315, 0, 45] =
     [''TOP'', ''TOP_RIGHT'', ''RIGHT'', ''BOTTOM_RIGHT'', ''BOTTOM'', ''BOTTOM_LEFT'', ''LEFT'',
      ''TOP_LEFT'']"
  by (simp add: spec_sector_of_def py_mod_def)

text \<open>
  C1. The claim: every angle is classified into the sector whose 45 degree interval holds
  the angle less 90 degrees, so the eight canonical angles give the eight sector names.
  The code does not do that. For every section but \<open>TOP\<close> the first test of the loop,
  \<open>start_angle <= adjusted_angle or adjusted_angle < end_angle\<close>, is true of every angle, the
  \<open>elif\<close> that would return the section is never reached, and \<open>get_hit_section\<close> answers
  \<open>TOP\<close> for all of the eight canonical angles, where the specification's classification
  gives the eight names.
\<close>

theorem get_hit_section_canonical_angles:
  "map get_hit_section [90, 135, 180, 225, 270, 315, 0, 45] =
     [''TOP'', ''TOP'', ''TOP'', ''TOP'', ''TOP'', ''TOP'', ''TOP'', ''TOP'']
   \<and> get_hit_section 135 \<noteq> spec_sector_of 135"
  by (simp add: get_hit_section_def spec_sector_of_def py_mod_def sections_def)

text \<open>
  C9. The table that gives a sector its spawn angle and the classifier of hit detection do
  not invert each other: for some sector name, classifying its spawn angle gives another
  name. This holds for the table of \<open>region_to_angle\<close> and for
  \<open>NoteGenerator.region_angles\<close>.
\<close>

theorem sector_tables_inconsistent:
  "(\<exists>S a. region_to_angle S = Some a \<and> get_hit_section a \<noteq> S)
   \<and> (\<exists>S a. map_of region_angles S = Some a \<and> get_hit_section a \<noteq> S)"
proof -
  have r: "get_hit_section 0 \<noteq> ''RIGHT''"
    by (simp add: get_hit_section_def py_mod_def sections_def)
  have "region_to_angle ''RIGHT'' = Some 0"
    by (simp add: region_to_angle_def)
  moreover have "map_of region_angles ''RIGHT'' = Some 0"
    by (simp add: region_angles_def)
  ultimately show ?thesis using r by blast
qed

text \<open>
  The two tables also disagree with the classification as the specification words it, so
  the inconsistency does not come from the loop of \<open>get_hit_section\<close> alone.
\<close>

lemma tables_inconsistent_under_spec:
  "region_to_angle ''TOP'' = Some 270 \<and> spec_sector_of 270 = ''BOTTOM''
   \<and> map_of region_angles ''TOP_RIGHT'' = Some 45 \<and> spec_sector_of 45 = ''TOP_LEFT''"
  by (simp add: region_to_angle_def region_angles_def spec_sector_of_def py_mod_def)

section \<open>Properties of the note engine\<close>

lemma hit_by_iff: "hit_by n gps \<longleftrightarrow> (\<exists>p \<in> set (map snd gps). within_tolerance p n)"
proof (induction gps)
  case Nil
  show ?case by simp
next
  case (Cons gp gps)
  obtain g p where gp: "gp = (g, p)" by (cases gp)
  show ?case using Cons.IH
    by (auto simp add: gp Let_def within_tolerance_def min_def)
qed

lemma check_hits_loop_filter:
  "check_hits_loop ns gps = (filter (\<lambda>n. hit_by n gps) ns, filter (\<lambda>n. \<not> hit_by n gps) ns)"
  by (induction ns) simp_all

lemma hit_angle_of_right: "hit_angle_of (310, 300) = 0"
  by (simp add: hit_angle_of_def atan2_def degrees_def WINDOW_WIDTH_def WINDOW_HEIGHT_def)

lemma hit_angle_of_down: "hit_angle_of (300, 310) = 90"
  by (simp add: hit_angle_of_def atan2_def degrees_def WINDOW_WIDTH_def WINDOW_HEIGHT_def)

lemma update_loop_filter: "update_loop ns = filter (\<lambda>n. \<not> radius n < 0) (map Note_update ns)"
  by (induction ns) (simp_all add: Let_def)

text \<open>
  C2, as amended. In every call of \<open>check_hits\<close> the notes returned as hit are exactly the
  active notes that some position of \<open>zip(gestures, positions)\<close> accepts: shorter arc to
  the hit angle below 60 degrees and radius strictly between 0.6 and 1.4 times the radius
  of the play field. Every accepted note leaves the active set, the others stay, and every
  note is consumed at most once. The number of notes one gesture consumes is not bounded
  by one.
\<close>

theorem check_hits_accepts:
  "fst (check_hits gestures positions nm) =
     filter (\<lambda>n. \<exists>p \<in> set (map snd (zip gestures positions)). within_tolerance p n) (nm_notes nm)
   \<and> nm_notes (snd (check_hits gestures positions nm)) =
     filter (\<lambda>n. \<not> (\<exists>p \<in> set (map snd (zip gestures positions)). within_tolerance p n))
       (nm_notes nm)
   \<and> length (fst (check_hits gestures positions nm))
       + length (nm_notes (snd (check_hits gestures positions nm))) = length (nm_notes nm)"
proof -
  let ?gps = "zip gestures positions"
  have c: "check_hits gestures positions nm =
      (filter (\<lambda>n. hit_by n ?gps) (nm_notes nm),
       nm\<lparr>nm_notes := filter (\<lambda>n. \<not> hit_by n ?gps) (nm_notes nm)\<rparr>)"
    by (simp add: check_hits_def check_hits_loop_filter)
  have len: "length (filter (\<lambda>n. hit_by n ?gps) (nm_notes nm))
      + length (filter (\<lambda>n. \<not> hit_by n ?gps) (nm_notes nm)) = length (nm_notes nm)"
    by (rule sum_length_filter_compl)
  show ?thesis
    unfolding c using len by (simp add: hit_by_iff)
qed

text \<open>
  The example of the specification: of a note at 90 degrees and a note at 200 degrees, both
  on the ring, a hit at 90 degrees consumes the first and leaves the second.
\<close>

theorem check_hits_accepts_witness:
  "fst (check_hits [(''TAP'', None)] [(300, 310)]
     ((NoteManager_init 0)\<lparr>nm_notes := [Note_init ''TAP'' 90 300 0, Note_init ''TAP'' 200 300 1]\<rparr>))
   = [Note_init ''TAP'' 90 300 0]
   \<and> nm_notes (snd (check_hits [(''TAP'', None)] [(300, 310)]
     ((NoteManager_init 0)\<lparr>nm_notes := [Note_init ''TAP'' 90 300 0, Note_init ''TAP'' 200 300 1]\<rparr>)))
   = [Note_init ''TAP'' 200 300 1]"
  using check_hits_accepts [of "[(''TAP'', None)]" "[(300, 310)]"
     "(NoteManager_init 0)\<lparr>nm_notes := [Note_init ''TAP'' 90 300 0, Note_init ''TAP'' 200 300 1]\<rparr>"]
  by (simp add: within_tolerance_def hit_angle_of_down Note_init_def CIRCLE_RADIUS_def)

text \<open>
  Against C2 as stated: one gesture at 0 degrees and two notes at 0 degrees on the ring.
  The single hit event consumes both notes.
\<close>

theorem check_hits_one_gesture_two_notes:
  "check_hits [(''TAP'', None)] [(310, 300)]
     ((NoteManager_init 0)\<lparr>nm_notes := [Note_init ''TAP'' 0 300 0, Note_init ''TAP'' 0 300 1]\<rparr>)
   = ([Note_init ''TAP'' 0 300 0, Note_init ''TAP'' 0 300 1], (NoteManager_init 0)\<lparr>nm_notes := []\<rparr>)"
  by (simp add: check_hits_def hit_angle_of_right Note_init_def CIRCLE_RADIUS_def)

text \<open>
  C3, as amended. A tick of the note engine moves every active note inwards by
  \<open>NOTE_SPEED\<close> and marks it inactive when its radius is then below 0; the notes below 0
  leave the active set, so every note that stays has a radius of at least 0; the score
  manager is not touched by the tick; and a hit resolved after the tick can only return
  notes still in the active set, never a removed one.
\<close>

theorem note_tick:
  "nm_notes (NoteManager_update nm) = filter (\<lambda>n. \<not> radius n < 0) (map Note_update (nm_notes nm))
   \<and> Note_update n =
       (if active n then n\<lparr>radius := radius n - NOTE_SPEED, active := \<not> radius n - NOTE_SPEED < 0\<rparr>
        else n)
   \<and> list_all (\<lambda>m. \<not> radius m < 0) (nm_notes (NoteManager_update nm))
   \<and> score_manager (update_notes_of t) = score_manager t
   \<and> set (fst (check_hits gestures positions (NoteManager_update nm)))
       \<subseteq> set (nm_notes (NoteManager_update nm))"
proof -
  have a: "nm_notes (NoteManager_update nm) =
      filter (\<lambda>n. \<not> radius n < 0) (map Note_update (nm_notes nm))"
    by (simp add: NoteManager_update_def update_loop_filter)
  have b: "Note_update n =
      (if active n then n\<lparr>radius := radius n - NOTE_SPEED, active := \<not> radius n - NOTE_SPEED < 0\<rparr>
       else n)"
    by (simp add: Note_update_def Let_def)
  have c: "list_all (\<lambda>m. \<not> radius m < 0) (nm_notes (NoteManager_update nm))"
    unfolding a by (simp add: list_all_iff)
  have d: "score_manager (update_notes_of t) = score_manager t"
    by (simp add: update_notes_of_def)
  have e: "set (fst (check_hits gestures positions (NoteManager_update nm)))
      \<subseteq> set (nm_notes (NoteManager_update nm))"
    by (simp add: check_hits_def check_hits_loop_filter)
  from a b c d e show ?thesis by blast
qed

text \<open>
  Against C3 as stated: a trainer whose only note has radius 5. The tick removes the note,
  and the miss count of the score manager is still 0: no miss is reported.
\<close>

theorem update_reports_no_miss:
  "nm_notes (note_manager (update_notes_of
      ((MaiMaiTrainer_init 0)\<lparr>note_manager :=
          (NoteManager_init 0)\<lparr>nm_notes := [Note_init ''TAP'' 90 5 0]\<rparr>\<rparr>))) = []
   \<and> misses (score_manager (update_notes_of
      ((MaiMaiTrainer_init 0)\<lparr>note_manager :=
          (NoteManager_init 0)\<lparr>nm_notes := [Note_init ''TAP'' 90 5 0]\<rparr>\<rparr>))) = 0"
  by (simp add: update_notes_of_def NoteManager_update_def Note_update_def Note_init_def
      NOTE_SPEED_def MaiMaiTrainer_init_def ScoreManager_init_def Let_def)

section \<open>Properties of the coordinate mapper\<close>

lemma calculate_transformation_few:
  "length (calibration_points cm) < 4 \<Longrightarrow> calculate_transformation solve cm = Inr (False, cm)"
  by (simp add: calculate_transformation_def)

lemma calculate_transformation_four:
  "length (calibration_points cm) = 4 \<Longrightarrow>
   calculate_transformation solve cm =
     Inr (True, cm\<lparr>transformation_matrix :=
       Some (solve (map fst (calibration_points cm)) (map snd (calibration_points cm)))\<rparr>)"
  by (simp add: calculate_transformation_def getPerspectiveTransform_def Let_def)

lemma calculate_transformation_more:
  "4 < length (calibration_points cm) \<Longrightarrow> calculate_transformation solve cm = Inl cv2_error"
  by (simp add: calculate_transformation_def getPerspectiveTransform_def Let_def)

lemma is_calibrated_after:
  "calculate_transformation solve cm = Inr (True, cm') \<Longrightarrow> is_calibrated cm'"
  by (auto simp add: calculate_transformation_def is_calibrated_def Let_def
      split: if_splits sum.splits)

lemma is_calibrated_init: "\<not> is_calibrated CoordinateMapper_init"
  by (simp add: is_calibrated_def CoordinateMapper_init_def)

text \<open>
  C6. The claim: \<open>calculate_transformation\<close> returns \<open>False\<close> below four pairs and succeeds
  on four or more. The first half holds, and so does the second on exactly four pairs
  (the three lemmas above). On five pairs the guard \<open>len(...) < 4\<close> lets the call through,
  all five points go to \<open>cv2.getPerspectiveTransform\<close>, and its assertion on exactly four
  points raises: the call neither returns \<open>True\<close> nor sets the matrix.
\<close>

theorem calculate_transformation_five_points:
  "calculate_transformation solve
     (add_calibration_point (2, 2) (2, 2)
       (add_calibration_point (0, 1) (0, 1)
         (add_calibration_point (1, 1) (1, 1)
           (add_calibration_point (1, 0) (1, 0)
             (add_calibration_point (0, 0) (0, 0) CoordinateMapper_init)))))
   = Inl cv2_error"
  by (simp add: calculate_transformation_def getPerspectiveTransform_def Let_def
      add_calibration_point_def CoordinateMapper_init_def)

section \<open>Properties of screen detection and hit detection\<close>

lemma first_circular_None:
  "first_circular va cs = None \<longleftrightarrow> (\<forall>c \<in> set cs. \<not> circular_enough va c)"
  by (induction cs) simp_all

lemma detect_screen_False:
  "detect_screen fr va = Inr (False, va') \<Longrightarrow> va' = va"
  by (auto simp add: detect_screen_def Let_def split: option.splits if_splits prod.splits)

lemma detect_screen_fails:
  assumes "\<not> all_mapped va" and "\<forall>c \<in> set contours. \<not> circular_enough va c"
  shows "detect_screen (Some contours) va = Inr (False, va)"
proof -
  have "first_circular va (sort_key (\<lambda>c. - contourArea c) contours) = None"
    using assms(2) by (simp add: first_circular_None)
  then show ?thesis using assms(1) by (simp add: detect_screen_def)
qed

text \<open>
  C7. When the manual mapping is incomplete and no contour of the frame is circular enough
  (circularity above 0.7 and implied radius inside the band), \<open>detect_screen\<close> returns
  \<open>False\<close> and leaves the analyzer, so the stored centre and radius, as they were; the same
  holds of every call that returns \<open>False\<close>. When the centre or the radius was never set,
  \<open>check_button_hit\<close> returns \<open>False\<close> for every finger update and leaves the geometry unset.
\<close>

theorem detect_screen_failure:
  "(\<not> all_mapped va \<and> (\<forall>c \<in> set contours. \<not> circular_enough va c)
      \<longrightarrow> detect_screen (Some contours) va = Inr (False, va))
   \<and> (detect_screen fr va = Inr (False, va') \<longrightarrow> va' = va)
   \<and> (screen_center (video_analyzer t) = None \<or> screen_radius (video_analyzer t) = None
      \<longrightarrow> fst (check_button_hit x y fid now dnow t) = False
          \<and> video_analyzer (snd (check_button_hit x y fid now dnow t)) = video_analyzer t)"
proof -
  have a: "\<not> all_mapped va \<and> (\<forall>c \<in> set contours. \<not> circular_enough va c)
      \<longrightarrow> detect_screen (Some contours) va = Inr (False, va)"
    using detect_screen_fails by blast
  have b: "detect_screen fr va = Inr (False, va') \<longrightarrow> va' = va"
    using detect_screen_False by blast
  have c: "screen_center (video_analyzer t) = None \<or> screen_radius (video_analyzer t) = None
      \<longrightarrow> fst (check_button_hit x y fid now dnow t) = False
          \<and> video_analyzer (snd (check_button_hit x y fid now dnow t)) = video_analyzer t"
    by (auto simp add: check_button_hit_def Let_def split: option.splits)
  from a b c show ?thesis by blast
qed

text \<open>
  Concrete inputs for C7. The analyzer holds the geometry of an earlier detection, centre
  \<open>(10, 20)\<close> and radius 30, and no button is mapped. The frame has two contours: a disc
  of area 10000 and perimeter 360, circular enough (circularity above 0.7) but with an
  implied radius below the band from 144 to 216; and a ragged blob of area 90000 and
  perimeter 2000, inside the band but not circular. Neither qualifies. A disc of area
  90000 and perimeter 1100 passes both tests.
\<close>

lemma pi_ge_3: "3 \<le> pi"
proof -
  have "sin (pi / 6) \<le> pi / 6"
    by (rule sin_x_le_x) simp
  then show ?thesis by (simp add: sin_30)
qed

lemma VideoAnalyzer_init_band:
  "min_radius VideoAnalyzer_init = 144 \<and> max_radius VideoAnalyzer_init = 216"
  by (simp add: VideoAnalyzer_init_def WEBCAM_WIDTH_def WEBCAM_HEIGHT_def py_int_def)

lemma small_disc_not_enough:
  "circularity \<lparr>contourArea = 10000, arcLength = 360, minEnclosingCircle = ((320, 240), 57)\<rparr>
     > 0.7
   \<and> \<not> circular_enough
       (VideoAnalyzer_init\<lparr>screen_center := Some (10, 20), screen_radius := Some 30\<rparr>)
       \<lparr>contourArea = 10000, arcLength = 360, minEnclosingCircle = ((320, 240), 57)\<rparr>"
proof -
  have c: "4 * pi * 10000 / (360 * 360) > (0.7::real)"
    using pi_ge_3 by (simp add: field_simps)
  have "10000 / pi \<le> (144::real)\<^sup>2"
    using pi_ge_3 by (simp add: field_simps)
  then have "sqrt (10000 / pi) \<le> 144"
    by (intro real_le_lsqrt) simp_all
  then show ?thesis using c
    by (simp add: circular_enough_def circularity_def VideoAnalyzer_init_band)
qed

lemma ragged_blob_not_enough:
  "144 < sqrt (90000 / pi) \<and> sqrt (90000 / pi) < 216
   \<and> \<not> circular_enough
       (VideoAnalyzer_init\<lparr>screen_center := Some (10, 20), screen_radius := Some 30\<rparr>)
       \<lparr>contourArea = 90000, arcLength = 2000, minEnclosingCircle = ((320, 240), 200)\<rparr>"
proof -
  have "(144::real)\<^sup>2 < 90000 / pi"
    using pi_less_4 pi_gt_zero by (simp add: field_simps)
  then have lo: "144 < sqrt (90000 / pi)"
    by (intro real_less_rsqrt)
  have "90000 / pi < (216::real)\<^sup>2"
    using pi_ge_3 by (simp add: field_simps)
  then have hi: "sqrt (90000 / pi) < 216"
    by (intro real_less_lsqrt) simp_all
  have "4 * pi * 90000 / (2000 * 2000) \<le> (0.7::real)"
    using pi_less_4 by (simp add: field_simps)
  then show ?thesis using lo hi
    by (simp add: circular_enough_def circularity_def)
qed

lemma disc_enough:
  "circular_enough
     (VideoAnalyzer_init\<lparr>screen_center := Some (10, 20), screen_radius := Some 30\<rparr>)
     \<lparr>contourArea = 90000, arcLength = 1100, minEnclosingCircle = ((320, 240), 170)\<rparr>"
proof -
  have c: "4 * pi * 90000 / (1100 * 1100) > (0.7::real)"
    using pi_ge_3 by (simp add: field_simps)
  show ?thesis using c ragged_blob_not_enough
    by (simp add: circular_enough_def circularity_def VideoAnalyzer_init_band)
qed

text \<open>
  With the disc in the frame the detection succeeds and replaces the stored geometry, so
  the failure below is decided by the contours of the frame.
\<close>

lemma detect_screen_success_example:
  "detect_screen
     (Some [\<lparr>contourArea = 10000, arcLength = 360, minEnclosingCircle = ((320, 240), 57)\<rparr>,
            \<lparr>contourArea = 90000, arcLength = 1100, minEnclosingCircle = ((320, 240), 170)\<rparr>])
     (VideoAnalyzer_init\<lparr>screen_center := Some (10, 20), screen_radius := Some 30\<rparr>)
   = Inr (True, VideoAnalyzer_init\<lparr>screen_center := Some (320, 240), screen_radius := Some 170\<rparr>)"
proof -
  have m: "\<not> all_mapped
      (VideoAnalyzer_init\<lparr>screen_center := Some (10, 20), screen_radius := Some 30\<rparr>)"
    by (simp add: all_mapped_def VideoAnalyzer_init_def)
  show ?thesis
    using m disc_enough
    by (simp add: detect_screen_def py_int_def)
qed

text \<open>
  The trainer of the examples has seen finger 8 once, at \<open>(0, 0)\<close>; the update at
  \<open>(100, 100)\<close> comes a second later, so it is past the cooldown and has a recorded last
  position and a movement above the threshold. With the geometry set (centre \<open>(100, 20)\<close>,
  radius 100, the finger at distance 80) that update is a hit.
\<close>

lemma sqrt_6400: "sqrt 6400 = 80"
  using real_sqrt_abs2 [of 80] by simp

lemma sqrt_20000: "10 < sqrt 20000"
  by (intro real_less_rsqrt) simp

lemma first_sighting_example:
  "check_button_hit 0 0 8 1000 1000 (MaiMaiTrainer_init 0) =
     (False, (MaiMaiTrainer_init 0)\<lparr>last_finger_positions := [8 \<mapsto> (0, 0)]\<rparr>)"
  by (simp add: check_button_hit_def MaiMaiTrainer_init_def)

lemma check_button_hit_geometry_set_example:
  "fst (check_button_hit 100 100 8 2000 2000
     ((MaiMaiTrainer_init 0)
        \<lparr>last_finger_positions := [8 \<mapsto> (0, 0)],
         video_analyzer :=
           VideoAnalyzer_init\<lparr>screen_center := Some (100, 20), screen_radius := Some 100\<rparr>\<rparr>))
   = True"
  by (simp add: check_button_hit_def MaiMaiTrainer_init_def Let_def sqrt_6400 sqrt_20000)

text \<open>
  The theorem at these inputs. The frame with the small disc and the ragged blob fails and
  the analyzer keeps the centre \<open>(10, 20)\<close> and the radius 30 of the earlier detection. The
  second update of finger 8, on a trainer whose analyzer never had a geometry, is rejected
  at the test of the geometry, and the geometry stays unset.
\<close>

theorem detect_screen_failure_witness:
  "detect_screen
     (Some [\<lparr>contourArea = 10000, arcLength = 360, minEnclosingCircle = ((320, 240), 57)\<rparr>,
            \<lparr>contourArea = 90000, arcLength = 2000, minEnclosingCircle = ((320, 240), 200)\<rparr>])
     (VideoAnalyzer_init\<lparr>screen_center := Some (10, 20), screen_radius := Some 30\<rparr>)
   = Inr (False, VideoAnalyzer_init\<lparr>screen_center := Some (10, 20), screen_radius := Some 30\<rparr>)
   \<and> fst (check_button_hit 100 100 8 2000 2000
        ((MaiMaiTrainer_init 0)\<lparr>last_finger_positions := [8 \<mapsto> (0, 0)]\<rparr>)) = False
   \<and> video_analyzer (snd (check_button_hit 100 100 8 2000 2000
        ((MaiMaiTrainer_init 0)\<lparr>last_finger_positions := [8 \<mapsto> (0, 0)]\<rparr>)))
       = VideoAnalyzer_init"
proof -
  let ?va = "VideoAnalyzer_init\<lparr>screen_center := Some (10, 20), screen_radius := Some 30\<rparr>"
  let ?c1 = "\<lparr>contourArea = 10000, arcLength = 360, minEnclosingCircle = ((320, 240), 57)\<rparr>"
  let ?c2 = "\<lparr>contourArea = 90000, arcLength = 2000, minEnclosingCircle = ((320, 240), 200)\<rparr>"
  let ?t = "(MaiMaiTrainer_init 0)\<lparr>last_finger_positions := [8 \<mapsto> (0, 0)]\<rparr>"
  have h1: "\<not> all_mapped ?va"
    by (simp add: all_mapped_def VideoAnalyzer_init_def)
  have h2: "\<forall>c \<in> set [?c1, ?c2]. \<not> circular_enough ?va c"
    using small_disc_not_enough ragged_blob_not_enough by simp
  have va: "video_analyzer ?t = VideoAnalyzer_init"
    by (simp add: MaiMaiTrainer_init_def)
  have h3: "screen_center (video_analyzer ?t) = None"
    unfolding va by (simp add: VideoAnalyzer_init_def)
  have d: "detect_screen (Some [?c1, ?c2]) ?va = Inr (False, ?va)"
    using detect_screen_failure [of ?va "[?c1, ?c2]" "Some [?c1, ?c2]" ?va ?t 100 100 8 2000 2000]
      h1 h2 by blast
  have b: "fst (check_button_hit 100 100 8 2000 2000 ?t) = False
      \<and> video_analyzer (snd (check_button_hit 100 100 8 2000 2000 ?t)) = video_analyzer ?t"
    using detect_screen_failure [of ?va "[?c1, ?c2]" "Some [?c1, ?c2]" ?va ?t 100 100 8 2000 2000]
      h3 by blast
  from d b va show ?thesis by simp
qed

section \<open>Properties of gesture detection\<close>

lemma sqrt_1600: "sqrt 1600 = 40"
  using real_sqrt_abs2 [of 40] by simp

lemma sqrt_25: "sqrt 25 = 5"
  using real_sqrt_abs2 [of 5] by simp

text \<open>
  C8. With the thresholds of the tracker (30 pixels, 0.1 of depth): the first observation
  of a finger id returns no gesture and records the position; on a later observation,
  against the position recorded last, the result is \<open>SLIDE\<close> with the direction
  \<open>atan2(dy, dx)\<close> in degrees when the planar displacement exceeds 30, otherwise \<open>TAP\<close>
  when the change of depth exceeds 0.1 in absolute value, otherwise no gesture; and the
  new position is recorded.
\<close>

theorem detect_gesture_classifies:
  assumes "slide_threshold ht = 30" and "tap_threshold ht = 0.1"
  shows "(prev_positions ht fid = None \<longrightarrow>
            detect_gesture (x, y, z) fid ht =
              (None, ht\<lparr>prev_positions := (prev_positions ht)(fid \<mapsto> (x, y, z))\<rparr>))
     \<and> (prev_positions ht fid = Some (px, py, pz) \<longrightarrow>
            fst (detect_gesture (x, y, z) fid ht) =
              (if sqrt (of_int ((x - px) * (x - px) + (y - py) * (y - py))) > 30
               then Some (''SLIDE'', Some (degrees (atan2 (of_int (y - py)) (of_int (x - px)))))
               else if \<bar>z - pz\<bar> > 0.1 then Some (''TAP'', None)
               else None)
            \<and> snd (detect_gesture (x, y, z) fid ht) =
                ht\<lparr>prev_positions := (prev_positions ht)(fid \<mapsto> (x, y, z))\<rparr>)"
  using assms by (simp add: detect_gesture_def Let_def)

text \<open>
  A new tracker sees a finger first at the origin (no gesture), then 40 pixels to the right
  (a slide at 0 degrees), or one unit deeper (a tap), or 5 pixels away (no gesture).
\<close>

theorem detect_gesture_classifies_witness:
  "detect_gesture (0, 0, 0) ''hand0_finger8'' HandTracker_init =
     (None, HandTracker_init\<lparr>prev_positions := [''hand0_finger8'' \<mapsto> (0, 0, 0)]\<rparr>)
   \<and> fst (detect_gesture (40, 0, 0) ''hand0_finger8''
        (HandTracker_init\<lparr>prev_positions := [''hand0_finger8'' \<mapsto> (0, 0, 0)]\<rparr>))
      = Some (''SLIDE'', Some 0)
   \<and> fst (detect_gesture (0, 0, 1) ''hand0_finger8''
        (HandTracker_init\<lparr>prev_positions := [''hand0_finger8'' \<mapsto> (0, 0, 0)]\<rparr>))
      = Some (''TAP'', None)
   \<and> fst (detect_gesture (3, 4, 0) ''hand0_finger8''
        (HandTracker_init\<lparr>prev_positions := [''hand0_finger8'' \<mapsto> (0, 0, 0)]\<rparr>))
      = None"
proof -
  let ?h = "HandTracker_init\<lparr>prev_positions := [''hand0_finger8'' \<mapsto> (0, 0, 0)]\<rparr>"
  have i: "slide_threshold HandTracker_init = 30" "tap_threshold HandTracker_init = 0.1"
    "prev_positions HandTracker_init ''hand0_finger8'' = None"
    by (simp_all add: HandTracker_init_def)
  have h: "slide_threshold ?h = 30" "tap_threshold ?h = 0.1"
    "prev_positions ?h ''hand0_finger8'' = Some (0, 0, 0)"
    by (simp_all add: HandTracker_init_def)
  have a: "detect_gesture (0, 0, 0) ''hand0_finger8'' HandTracker_init = (None, ?h)"
    using detect_gesture_classifies [OF i(1) i(2), of "''hand0_finger8''" 0 0 0] i(3)
    by (simp add: HandTracker_init_def)
  have b: "fst (detect_gesture (40, 0, 0) ''hand0_finger8'' ?h) = Some (''SLIDE'', Some 0)"
    using detect_gesture_classifies [OF h(1) h(2), of "''hand0_finger8''" 40 0 0 0 0 0] h(3)
    by (simp add: sqrt_1600 atan2_def degrees_def)
  have c: "fst (detect_gesture (0, 0, 1) ''hand0_finger8'' ?h) = Some (''TAP'', None)"
    using detect_gesture_classifies [OF h(1) h(2), of "''hand0_finger8''" 0 0 1 0 0 0] h(3)
    by simp
  have d: "fst (detect_gesture (3, 4, 0) ''hand0_finger8'' ?h) = None"
    using detect_gesture_classifies [OF h(1) h(2), of "''hand0_finger8''" 3 4 0 0 0 0] h(3)
    by (simp add: sqrt_25)
  from a b c d show ?thesis by blast
qed

end
